theory Spec2Isabelle
  imports Complex_Main
begin

section \<open>The trajectory cost object of \<^verbatim>\<open>src/user/cost.hpp\<close>\<close>

text \<open>
  The class \<^verbatim>\<open>sac::cost\<close> keeps the tracking cost
  \<open>J1 = \<integral> l(x(t)) dt + m(x(tf))\<close> of a trajectory. This theory embeds its
  constructor, \<^verbatim>\<open>get_term_cost\<close>, \<^verbatim>\<open>get_dmdx\<close>,
  \<^verbatim>\<open>compute_cost\<close>, \<^verbatim>\<open>update\<close>, \<^verbatim>\<open>steps\<close> and the
  conversion to \<^verbatim>\<open>double\<close>.

  Conventions of the embedding.
  \<^item> A \<^verbatim>\<open>double\<close> is a \<open>real\<close>: rounding, overflow, underflow and NaN are not part
    of this model. \<^verbatim>\<open>state_type\<close> (a \<^verbatim>\<open>std::vector<double>\<close>) and the
    fixed-size Eigen column vectors are lists of reals; the matrix \<^verbatim>\<open>P\<close> is the list
    of its rows. The one place where a property depends on the rounding, the quadratic
    form that \<^verbatim>\<open>get_term_cost\<close> returns, is also given with every operation rounded to
    binary64 (\<open>get_term_cost_b64\<close>).
  \<^item> Member names lose their trailing underscore (\<^verbatim>\<open>J1_\<close> is \<open>J1\<close>, \<^verbatim>\<open>tf_\<close>
    is \<open>tf\<close>, ...), which the logic does not accept in a name.
  \<^item> Every member function takes the object and returns it updated, next to its result.
  \<^item> \<^verbatim>\<open>operator[]\<close> of a vector outside its size is undefined behaviour in C++; the
    model stops there with the error value \<open>IndexOutOfRange\<close> and the object as it was
    at that moment.
  \<^item> What the header uses and does not define is collected in the record \<open>env\<close>: what
    the collaborators answer at the time of a call. They are functions, which return:
    the header has no \<^verbatim>\<open>throw\<close>, \<^verbatim>\<open>try\<close> or \<^verbatim>\<open>catch\<close>, and an exception that
    leaves a collaborator has no counterpart here.
\<close>

type_synonym state_type = "real list"

datatype error = IndexOutOfRange

subsection \<open>Collaborators\<close>

text \<open>
  The header calls, and does not define: the incremental cost \<^verbatim>\<open>m_lofx\<close> (its
  \<^verbatim>\<open>begin()\<close>, \<^verbatim>\<open>end()\<close> and its call operator, the right-hand side of
  \<open>dJ/dt = l(x(t))\<close>), the state interpolator \<^verbatim>\<open>m_x_intp\<close>, the helpers
  \<^verbatim>\<open>AngleWrap\<close>, \<^verbatim>\<open>State2Mat\<close> and \<^verbatim>\<open>get_DesTraj\<close>, the constants
  \<^verbatim>\<open>x_wrap\<close>, \<^verbatim>\<open>P\<close> and \<^verbatim>\<open>xlen\<close>, and odeint's
  \<^verbatim>\<open>integrate_adaptive\<close>. Each is a parameter. The helpers that fill a reference
  argument (\<^verbatim>\<open>m_x_intp(t, x)\<close>, \<^verbatim>\<open>State2Mat(x, m)\<close>,
  \<^verbatim>\<open>get_DesTraj(t, m)\<close>) are functions from their input to the value they store.
  An index of \<^verbatim>\<open>x_wrap\<close> is a natural number; a negative \<^verbatim>\<open>int\<close> converted
  to \<^verbatim>\<open>size_t\<close> is a number beyond every vector's size.

  \<open>integrate_adaptive env atol rtol f s a b dt\<close> stands for
  \<^verbatim>\<open>integrate_adaptive(make_controlled(atol, rtol, stepper_type()), f, s, a, b, dt)\<close>:
  it returns the state vector as the call leaves it and the number of steps.
\<close>

record env =
  m_lofx_begin :: real
  m_lofx_end :: real
  m_lofx :: "state_type \<Rightarrow> real \<Rightarrow> state_type"
  m_x_intp :: "real \<Rightarrow> state_type"
  AngleWrap :: "real \<Rightarrow> real"
  x_wrap :: "nat list"
  State2Mat :: "state_type \<Rightarrow> real list"
  get_DesTraj :: "real \<Rightarrow> real list"
  P :: "real list list"
  xlen :: nat
  integrate_adaptive ::
    "real \<Rightarrow> real \<Rightarrow> (state_type \<Rightarrow> real \<Rightarrow> state_type) \<Rightarrow> state_type \<Rightarrow> real \<Rightarrow> real \<Rightarrow> real
      \<Rightarrow> state_type \<times> nat"

subsection \<open>The object\<close>

record cost =
  J1 :: state_type
  x_tf :: state_type
  t0 :: real
  tf :: real
  J1steps :: nat
  mx_tf :: "real list"
  mxdes_tf :: "real list"
  indx :: nat

text \<open>
  \<^verbatim>\<open>const int wrap_size_\<close> is initialised to
  \<^verbatim>\<open>sizeof(x_wrap)/sizeof(x_wrap[0])\<close> and never assigned again: it is the number of
  entries of \<^verbatim>\<open>x_wrap\<close>.
\<close>

definition wrap_size :: "env \<Rightarrow> nat" where
  "wrap_size env = length (x_wrap env)"

text \<open>
  The constructor. \<^verbatim>\<open>J1_(1)\<close> and \<^verbatim>\<open>x_tf_(xlen)\<close> are vectors of zeros,
  \<^verbatim>\<open>mxdes_tf_\<close> is \<^verbatim>\<open>Zero(xlen,1)\<close>. The initialiser list names neither
  \<^verbatim>\<open>mx_tf_\<close> nor \<^verbatim>\<open>indx_\<close>: they start with whatever the memory holds, here
  the two extra arguments.
\<close>

definition cost_ctor :: "env \<Rightarrow> real list \<Rightarrow> nat \<Rightarrow> cost" where
  "cost_ctor env mx_uninit indx_uninit =
     \<lparr>J1 = replicate 1 0, x_tf = replicate (xlen env) 0, t0 = 0, tf = 0, J1steps = 0,
      mx_tf = mx_uninit, mxdes_tf = replicate (xlen env) 0, indx = indx_uninit\<rparr>"

subsection \<open>Eigen's operations\<close>

text \<open>
  \<open>vec_minus\<close> is \<^verbatim>\<open>a - b\<close> on column vectors, \<open>transpose_times v M\<close> is
  \<^verbatim>\<open>v.transpose() * M\<close> (a row vector: entry \<open>j\<close> is the product of \<open>v\<close> with
  column \<open>j\<close> of \<open>M\<close>), and \<open>times_vec r v\<close> is the product of a row vector with a
  column vector, a matrix with one entry.
\<close>

definition vec_minus :: "real list \<Rightarrow> real list \<Rightarrow> real list" where
  "vec_minus a b = map2 (-) a b"

definition transpose_times :: "real list \<Rightarrow> real list list \<Rightarrow> real list" where
  "transpose_times v M = map (\<lambda>col. sum_list (map2 (*) v col)) (transpose M)"

definition times_vec :: "real list \<Rightarrow> real list \<Rightarrow> real list" where
  "times_vec r v = [sum_list (map2 (*) r v)]"

subsection \<open>Angle wrapping\<close>

text \<open>
  \<^verbatim>\<open>for (indx_ = 0; indx_ < wrap_size_; ++indx_) {AngleWrap( x_tf_[x_wrap[indx_]] );}\<close>
  from the value \<open>indx\<close> has on entry. \<^verbatim>\<open>AngleWrap\<close> takes its argument by
  reference and rewrites it.
\<close>

function wrap_loop :: "env \<Rightarrow> cost \<Rightarrow> (error + unit) \<times> cost" where
  "wrap_loop env c =
     (if indx c < wrap_size env then
        (if x_wrap env ! indx c < length (x_tf c) then
           wrap_loop env
             (c\<lparr>x_tf := (x_tf c)[x_wrap env ! indx c :=
                       AngleWrap env (x_tf c ! (x_wrap env ! indx c))],
                indx := Suc (indx c)\<rparr>)
         else (Inl IndexOutOfRange, c))
      else (Inr (), c))"
  by pat_completeness auto
termination
  by (relation "measure (\<lambda>(env, c). wrap_size env - indx c)") auto

subsection \<open>Terminal cost and its derivative\<close>

definition get_term_cost :: "env \<Rightarrow> cost \<Rightarrow> (error + real) \<times> cost" where
  "get_term_cost env c =
     (let c = c\<lparr>t0 := m_lofx_begin env\<rparr>;
          c = c\<lparr>tf := m_lofx_end env\<rparr>;
          c = c\<lparr>x_tf := m_x_intp env (tf c)\<rparr>;
          (r, c) = wrap_loop env (c\<lparr>indx := 0\<rparr>)
      in case r of
           Inl e \<Rightarrow> (Inl e, c)
         | Inr _ \<Rightarrow>
             let c = c\<lparr>mx_tf := State2Mat env (x_tf c)\<rparr>;
                 c = c\<lparr>mxdes_tf := get_DesTraj env (tf c)\<rparr>
             in (Inr (times_vec (transpose_times (vec_minus (mx_tf c) (mxdes_tf c)) (P env))
                        (vec_minus (mx_tf c) (mxdes_tf c)) ! 0), c))"

definition get_dmdx :: "env \<Rightarrow> cost \<Rightarrow> (error + real list) \<times> cost" where
  "get_dmdx env c =
     (let c = c\<lparr>t0 := m_lofx_begin env\<rparr>;
          c = c\<lparr>tf := m_lofx_end env\<rparr>;
          c = c\<lparr>x_tf := m_x_intp env (tf c)\<rparr>;
          (r, c) = wrap_loop env (c\<lparr>indx := 0\<rparr>)
      in case r of
           Inl e \<Rightarrow> (Inl e, c)
         | Inr _ \<Rightarrow>
             let c = c\<lparr>mx_tf := State2Mat env (x_tf c)\<rparr>;
                 c = c\<lparr>mxdes_tf := get_DesTraj env (tf c)\<rparr>
             in (Inr (transpose_times (vec_minus (mx_tf c) (mxdes_tf c)) (P env)), c))"

subsection \<open>Integration and update\<close>

text \<open>
  \<^verbatim>\<open>compute_cost\<close> integrates in place on the vector it is given by reference and
  returns the step count; the model returns the count and the vector. The upper limit
  \<^verbatim>\<open>tf_-eps\<close> is the difference of reals here, always below \<open>tf\<close>; the difference of
  doubles is \<open>tf\<close> itself once \<open>tf\<close> is so large that \<open>1e-7\<close> is less than half the
  distance between neighbouring doubles.
\<close>

definition compute_cost :: "env \<Rightarrow> cost \<Rightarrow> state_type \<Rightarrow> nat \<times> state_type" where
  "compute_cost env c term_cost =
     (let eps = 1 / 10 ^ 7;
          (term_cost, J1_steps) =
             integrate_adaptive env (1 / 10 ^ 5) (1 / 10 ^ 5) (m_lofx env) term_cost
               (t0 c) (tf c - eps) (1 / 100)
      in (J1_steps, term_cost))"

definition operator_double :: "cost \<Rightarrow> error + real" where
  "operator_double c = (if J1 c = [] then Inl IndexOutOfRange else Inr (J1 c ! 0))"

definition steps :: "cost \<Rightarrow> nat" where
  "steps c = J1steps c"

definition update :: "env \<Rightarrow> cost \<Rightarrow> (error + unit) \<times> cost" where
  "update env c =
     (let c = c\<lparr>t0 := m_lofx_begin env\<rparr>;
          c = c\<lparr>tf := m_lofx_end env\<rparr>;
          (r, c) = get_term_cost env c
      in case r of
           Inl e \<Rightarrow> (Inl e, c)
         | Inr m \<Rightarrow>
             if J1 c = [] then (Inl IndexOutOfRange, c)
             else
               let c = c\<lparr>J1 := (J1 c)[0 := m]\<rparr>;
                   (n, term_cost) = compute_cost env c (J1 c)
               in (Inr (), c\<lparr>J1 := term_cost, J1steps := n\<rparr>))"


subsection \<open>The loop on lists\<close>

text \<open>
  The same loop on the entries of \<open>x_wrap\<close> that are still to come: the outcome, the
  number of entries handled, and the vector.
\<close>

fun wrap_list :: "(real \<Rightarrow> real) \<Rightarrow> nat list \<Rightarrow> state_type \<Rightarrow> (error + unit) \<times> nat \<times> state_type" where
  "wrap_list aw [] x = (Inr (), 0, x)"
| "wrap_list aw (k # ks) x =
     (if k < length x then
        (case wrap_list aw ks (x[k := aw (x ! k)]) of (r, n, y) \<Rightarrow> (r, Suc n, y))
      else (Inl IndexOutOfRange, 0, x))"


subsection \<open>Sequences of calls\<close>

text \<open>
  \<^verbatim>\<open>get_dmdx\<close> called once for each entry of a list, the collaborators answering as
  the entry says at that call.
\<close>

fun get_dmdx_seq :: "env list \<Rightarrow> cost \<Rightarrow> cost" where
  "get_dmdx_seq [] c = c"
| "get_dmdx_seq (env # envs) c = get_dmdx_seq envs (snd (get_dmdx env c))"

subsection \<open>The quadratic form of the specification\<close>

text \<open>
  \<open>(x - x_des)\<^sup>T P (x - x_des)\<close> as the double sum over the entries of an \<open>n \<times> n\<close>
  matrix given by its rows, and what it is for such a matrix to be symmetric and positive
  semidefinite, or positive definite.
\<close>

definition quad_form :: "nat \<Rightarrow> real list list \<Rightarrow> real list \<Rightarrow> real" where
  "quad_form n M d = (\<Sum>i<n. \<Sum>j<n. d ! i * M ! i ! j * d ! j)"

definition square_mat :: "nat \<Rightarrow> real list list \<Rightarrow> bool" where
  "square_mat n M \<longleftrightarrow> length M = n \<and> (\<forall>r\<in>set M. length r = n)"

definition symmetric_mat :: "nat \<Rightarrow> real list list \<Rightarrow> bool" where
  "symmetric_mat n M \<longleftrightarrow> (\<forall>i<n. \<forall>j<n. M ! i ! j = M ! j ! i)"

definition pos_semidef :: "nat \<Rightarrow> real list list \<Rightarrow> bool" where
  "pos_semidef n M \<longleftrightarrow>
     symmetric_mat n M \<and> (\<forall>v. length v = n \<longrightarrow> 0 \<le> quad_form n M v)"

definition pos_def :: "nat \<Rightarrow> real list list \<Rightarrow> bool" where
  "pos_def n M \<longleftrightarrow>
     symmetric_mat n M \<and> (\<forall>v. length v = n \<and> v \<noteq> replicate n 0 \<longrightarrow> 0 < quad_form n M v)"

subsection \<open>The terminal cost in binary64\<close>

text \<open>
  \<open>b64 x\<close> is the double nearest to the real \<open>x\<close>, ties going to the even significand
  (the rounding of IEEE 754 that C++ uses for \<^verbatim>\<open>double\<close>): the doubles around \<open>x\<close>
  are the multiples of \<open>b64_ulp x\<close>, which is \<open>2\<^sup>e\<^sup>-\<^sup>5\<^sup>2\<close> for \<open>2\<^sup>e \<le> |x| < 2\<^sup>e\<^sup>+\<^sup>1\<close> and
  \<open>2\<^sup>-\<^sup>1\<^sup>0\<^sup>7\<^sup>4\<close> below \<open>2\<^sup>-\<^sup>1\<^sup>0\<^sup>2\<^sup>2\<close>, where the subnormal numbers are. There is no
  infinity here: a value beyond the largest double stays finite, and nothing below
  reaches one.
\<close>

definition round_even :: "real \<Rightarrow> int" where
  "round_even y =
     (let f = \<lfloor>y\<rfloor> in
      if y - of_int f < 1 / 2 then f
      else if 1 / 2 < y - of_int f then f + 1
      else if even f then f else f + 1)"

definition b64_ulp :: "real \<Rightarrow> real" where
  "b64_ulp x =
     (if \<bar>x\<bar> < 1 / 2 ^ 1022 then 1 / 2 ^ 1074 else 2 powr of_int (\<lfloor>log 2 \<bar>x\<bar>\<rfloor> - 52))"

definition b64 :: "real \<Rightarrow> real" where
  "b64 x = of_int (round_even (x / b64_ulp x)) * b64_ulp x"

definition b64_add :: "real \<Rightarrow> real \<Rightarrow> real" where
  "b64_add a b = b64 (a + b)"

definition b64_sub :: "real \<Rightarrow> real \<Rightarrow> real" where
  "b64_sub a b = b64 (a - b)"

definition b64_mul :: "real \<Rightarrow> real \<Rightarrow> real" where
  "b64_mul a b = b64 (a * b)"

text \<open>
  Eigen's operations on doubles: every difference, product and sum is rounded, the sums
  of a product of vectors taken in the order of the index.
\<close>

definition vec_minus_b64 :: "real list \<Rightarrow> real list \<Rightarrow> real list" where
  "vec_minus_b64 a b = map2 b64_sub a b"

definition dot_b64 :: "real list \<Rightarrow> real list \<Rightarrow> real" where
  "dot_b64 a b = foldl b64_add 0 (map2 b64_mul a b)"

definition transpose_times_b64 :: "real list \<Rightarrow> real list list \<Rightarrow> real list" where
  "transpose_times_b64 v M = map (dot_b64 v) (transpose M)"

definition times_vec_b64 :: "real list \<Rightarrow> real list \<Rightarrow> real list" where
  "times_vec_b64 r v = [dot_b64 r v]"

text \<open>
  \<^verbatim>\<open>get_term_cost\<close> with the expression it returns,
  \<^verbatim>\<open>((mx_tf_-mxdes_tf_).transpose()*P*(mx_tf_-mxdes_tf_))[0]\<close>, evaluated on doubles. The
  steps before it store what the collaborators give and compute nothing.
\<close>

definition get_term_cost_b64 :: "env \<Rightarrow> cost \<Rightarrow> (error + real) \<times> cost" where
  "get_term_cost_b64 env c =
     (case get_term_cost env c of
        (Inl e, c) \<Rightarrow> (Inl e, c)
      | (Inr m, c) \<Rightarrow>
          (Inr (times_vec_b64
                  (transpose_times_b64 (vec_minus_b64 (mx_tf c) (mxdes_tf c)) (P env))
                  (vec_minus_b64 (mx_tf c) (mxdes_tf c)) ! 0), c))"

subsection \<open>Contracts of absent code\<close>

text \<open>
  Modelled from the spec: \<^verbatim>\<open>AngleWrap\<close>, which the header calls and another file of
  the repository defines. Section 4.1: it "rewrites each indexed component in place to an
  equivalent value within a canonical periodic range (e.g., (-pi, pi]), preserving the
  represented angle". The value in \<open>(-\<pi>, \<pi>]\<close> that differs from \<open>\<theta>\<close> by a multiple of
  \<open>2\<pi>\<close>:
\<close>

definition AngleWrap_spec :: "real \<Rightarrow> real" where
  "AngleWrap_spec \<theta> = \<theta> - 2 * pi * of_int \<lceil>(\<theta> - pi) / (2 * pi)\<rceil>"

text \<open>
  Modelled from the spec: what Section 4.1 asks of any \<^verbatim>\<open>AngleWrap\<close>, whatever the
  canonical range is ("e.g., (-pi, pi]"): the value it stores is in the range, here the
  predicate \<open>canon\<close>, and differs from the value it found by a multiple of \<open>2\<pi>\<close>.
\<close>

definition wraps_into :: "(real \<Rightarrow> bool) \<Rightarrow> (real \<Rightarrow> real) \<Rightarrow> bool" where
  "wraps_into canon aw \<longleftrightarrow> (\<forall>\<theta>. canon (aw \<theta>) \<and> (\<exists>k::int. aw \<theta> = \<theta> + 2 * pi * of_int k))"

text \<open>
  Modelled from the spec: the adaptive integrator, odeint's
  \<^verbatim>\<open>integrate_adaptive\<close>, on a window without length. Section 4.6: it integrates
  "from t0 to tf - eps" and "must tolerate t0 == tf (zero-length window) by producing zero
  additional steps and leaving the value unchanged". With \<open>t0 = tf\<close> the call is on the
  interval from \<open>t0\<close> to \<open>t0 - \<epsilon>\<close>, whose end is not after its start; the step hint is
  positive.
\<close>

definition no_step_when_empty ::
  "(real \<Rightarrow> real \<Rightarrow> (state_type \<Rightarrow> real \<Rightarrow> state_type) \<Rightarrow> state_type \<Rightarrow> real \<Rightarrow> real \<Rightarrow> real
     \<Rightarrow> state_type \<times> nat) \<Rightarrow> bool" where
  "no_step_when_empty integ \<longleftrightarrow>
     (\<forall>atol rtol f s a b dt. b \<le> a \<and> 0 < dt \<longrightarrow> integ atol rtol f s a b dt = (s, 0))"

subsection \<open>A concrete configuration\<close>

text \<open>
  A two-dimensional instance, to evaluate the functions on: the window \<open>[0, 1]\<close>, the
  running cost \<open>2\<close>, the trajectory \<open>t \<mapsto> (t, 3)\<close>, the second component moved by
  one period \<open>4\<close> towards \<open>(-2, 2]\<close>, the reference \<open>t \<mapsto> (t, 0)\<close> and \<open>P = diag(2, 1)\<close>.
  \<open>one_step\<close> stands in for the integrator: one explicit Euler step over an interval
  that has length, nothing otherwise.
\<close>

definition one_step ::
  "real \<Rightarrow> real \<Rightarrow> (state_type \<Rightarrow> real \<Rightarrow> state_type) \<Rightarrow> state_type \<Rightarrow> real \<Rightarrow> real \<Rightarrow> real
     \<Rightarrow> state_type \<times> nat" where
  "one_step atol rtol f s a b dt =
     (if a < b then (map2 (\<lambda>x dx. x + (b - a) * dx) s (f s a), 1) else (s, 0))"

definition env0 :: env where
  "env0 =
     \<lparr>m_lofx_begin = 0, m_lofx_end = 1, m_lofx = (\<lambda>x t. [2]), m_x_intp = (\<lambda>t. [t, 3]),
      AngleWrap = (\<lambda>\<theta>. if 2 < \<theta> then \<theta> - 4 else if \<theta> \<le> - 2 then \<theta> + 4 else \<theta>), x_wrap = [1],
      State2Mat = (\<lambda>x. x), get_DesTraj = (\<lambda>t. [t, 0]), P = [[2, 0], [0, 1]], xlen = 2,
      integrate_adaptive = one_step\<rparr>"

definition c0 :: cost where
  "c0 = cost_ctor env0 [] 0"

text \<open>The same with a window without length, and with a window whose end is before its start.\<close>

definition env_zero_window :: env where
  "env_zero_window = env0\<lparr>m_lofx_begin := 1\<rparr>"

definition env_reversed_window :: env where
  "env_reversed_window = env0\<lparr>m_lofx_begin := 2\<rparr>"

text \<open>
  The same with the modelled \<open>AngleWrap_spec\<close> and the sampled state \<open>(4, 4)\<close>, both
  components outside \<open>(-\<pi>, \<pi>]\<close> and only the second one listed in \<^verbatim>\<open>x_wrap\<close>.
\<close>

definition env_wrap_spec :: env where
  "env_wrap_spec = env0\<lparr>AngleWrap := AngleWrap_spec, m_x_intp := (\<lambda>t. [4, 4])\<rparr>"

text \<open>
  Three more, without wrapped components and with the reference at the origin (the last
  one excepted): the projected state \<open>(2\<^sup>-\<^sup>6\<^sup>0\<^sup>0, 0)\<close>; the projected state
  \<open>(2\<^sup>5\<^sup>0 + 1, -(3 \<cdot> 2\<^sup>5\<^sup>0 + 1))\<close> with the positive semidefinite
  \<open>P = (3, 1)\<^sup>T (3, 1)\<close>; and the reference equal to the projected state \<open>(1, 3)\<close>.
\<close>

definition tiny :: real where
  "tiny = 1 / 2 ^ 600"

definition env_underflow :: env where
  "env_underflow =
     env0\<lparr>m_x_intp := (\<lambda>t. [tiny, 0]), x_wrap := [], get_DesTraj := (\<lambda>t. [0, 0])\<rparr>"

definition env_negative :: env where
  "env_negative =
     env0\<lparr>m_x_intp := (\<lambda>t. [1125899906842625, - 3377699720527873]), x_wrap := [],
       get_DesTraj := (\<lambda>t. [0, 0]), P := [[9, 3], [3, 1]]\<rparr>"

definition env_equal :: env where
  "env_equal = env0\<lparr>x_wrap := [], get_DesTraj := (\<lambda>t. [t, 3])\<rparr>"

section \<open>Properties\<close>

subsection \<open>The loop\<close>

declare wrap_loop.simps [simp del]

lemma wrap_loop_wrap_list:
  "wrap_loop env c =
     (case wrap_list (AngleWrap env) (drop (indx c) (x_wrap env)) (x_tf c) of
        (r, n, y) \<Rightarrow> (r, c\<lparr>x_tf := y, indx := indx c + n\<rparr>))"
proof (induction env c rule: wrap_loop.induct)
  case (1 env c)
  show ?case
  proof (cases "indx c < wrap_size env")
    case False
    then show ?thesis
      by (subst wrap_loop.simps) (simp add: wrap_size_def)
  next
    case True
    then have d: "drop (indx c) (x_wrap env) = x_wrap env ! indx c # drop (Suc (indx c)) (x_wrap env)"
      by (simp add: wrap_size_def Cons_nth_drop_Suc)
    show ?thesis
    proof (cases "x_wrap env ! indx c < length (x_tf c)")
      case False
      with True d show ?thesis
        by (subst wrap_loop.simps) simp
    next
      case inr: True
      from "1.IH" [OF True inr] True inr d show ?thesis
        by (subst wrap_loop.simps) (simp split: prod.splits)
    qed
  qed
qed


lemma wrap_list_length: "length (snd (snd (wrap_list aw ks x))) = length x"
  by (induction ks arbitrary: x) (simp_all add: case_prod_beta)

lemma wrap_list_ok_iff: "fst (wrap_list aw ks x) = Inr () \<longleftrightarrow> (\<forall>k\<in>set ks. k < length x)"
proof (induction ks arbitrary: x)
  case Nil
  show ?case by simp
next
  case (Cons k ks)
  have "fst (wrap_list aw ks (x[k := aw (x ! k)])) = Inr () \<longleftrightarrow> (\<forall>k\<in>set ks. k < length x)"
    using Cons.IH [of "x[k := aw (x ! k)]"] by simp
  then show ?case
    by (simp add: case_prod_beta)
qed

lemma wrap_list_nth:
  "\<forall>k\<in>set ks. k < length x \<Longrightarrow> j < length x \<Longrightarrow>
     snd (snd (wrap_list aw ks x)) ! j = (aw ^^ count_list ks j) (x ! j)"
proof (induction ks arbitrary: x)
  case Nil
  show ?case by simp
next
  case (Cons k ks)
  let ?x = "x[k := aw (x ! k)]"
  from Cons.prems have k: "k < length x" and ks: "\<forall>k\<in>set ks. k < length ?x" and j: "j < length ?x"
    by simp_all
  have "snd (snd (wrap_list aw (k # ks) x)) ! j = snd (snd (wrap_list aw ks ?x)) ! j"
    using k by (simp add: case_prod_beta)
  also have "\<dots> = (aw ^^ count_list ks j) (?x ! j)"
    by (rule Cons.IH [OF ks j])
  also have "\<dots> = (aw ^^ count_list (k # ks) j) (x ! j)"
    using k by (cases "j = k") (simp_all add: funpow_swap1)
  finally show ?case .
qed

lemma wrap_list_frame: "j \<notin> set ks \<Longrightarrow> snd (snd (wrap_list aw ks x)) ! j = x ! j"
  by (induction ks arbitrary: x) (simp_all add: case_prod_beta)




lemma get_term_cost_wrap_list:
  "get_term_cost env c =
     (case wrap_list (AngleWrap env) (x_wrap env) (m_x_intp env (m_lofx_end env)) of
        (r, n, y) \<Rightarrow>
          (case r of
             Inl e \<Rightarrow>
               (Inl e, c\<lparr>x_tf := y, t0 := m_lofx_begin env, tf := m_lofx_end env, indx := n\<rparr>)
           | Inr u \<Rightarrow>
               (Inr (times_vec
                       (transpose_times
                          (vec_minus (State2Mat env y) (get_DesTraj env (m_lofx_end env))) (P env))
                       (vec_minus (State2Mat env y) (get_DesTraj env (m_lofx_end env))) ! 0),
                c\<lparr>x_tf := y, t0 := m_lofx_begin env, tf := m_lofx_end env,
                  mx_tf := State2Mat env y, mxdes_tf := get_DesTraj env (m_lofx_end env),
                  indx := n\<rparr>)))"
  by (simp add: get_term_cost_def wrap_loop_wrap_list Let_def split: prod.splits sum.splits)

lemma get_dmdx_wrap_list:
  "get_dmdx env c =
     (case wrap_list (AngleWrap env) (x_wrap env) (m_x_intp env (m_lofx_end env)) of
        (r, n, y) \<Rightarrow>
          (case r of
             Inl e \<Rightarrow>
               (Inl e, c\<lparr>x_tf := y, t0 := m_lofx_begin env, tf := m_lofx_end env, indx := n\<rparr>)
           | Inr u \<Rightarrow>
               (Inr (transpose_times
                       (vec_minus (State2Mat env y) (get_DesTraj env (m_lofx_end env))) (P env)),
                c\<lparr>x_tf := y, t0 := m_lofx_begin env, tf := m_lofx_end env,
                  mx_tf := State2Mat env y, mxdes_tf := get_DesTraj env (m_lofx_end env),
                  indx := n\<rparr>)))"
  by (simp add: get_dmdx_def wrap_loop_wrap_list Let_def split: prod.splits sum.splits)


lemma get_term_cost_cached:
  "get_term_cost env (c\<lparr>t0 := a, tf := b\<rparr>) = get_term_cost env c"
  by (simp add: get_term_cost_wrap_list split: prod.splits sum.splits)

lemma get_term_cost_fields:
  "J1 (snd (get_term_cost env c)) = J1 c"
  "J1steps (snd (get_term_cost env c)) = J1steps c"
  "t0 (snd (get_term_cost env c)) = m_lofx_begin env"
  "tf (snd (get_term_cost env c)) = m_lofx_end env"
  by (simp_all add: get_term_cost_wrap_list split: prod.splits sum.splits)

lemma get_term_cost_any_object:
  "fst (get_term_cost env c') = fst (get_term_cost env c)"
  by (simp add: get_term_cost_wrap_list split: prod.splits sum.splits)

lemma get_term_cost_again:
  "snd (get_term_cost env ((snd (get_term_cost env c))\<lparr>J1 := a, J1steps := b\<rparr>)) =
     (snd (get_term_cost env c))\<lparr>J1 := a, J1steps := b\<rparr>"
  by (simp add: get_term_cost_wrap_list split: prod.splits sum.splits)

lemma get_dmdx_fields:
  "J1 (snd (get_dmdx env c)) = J1 c"
  "J1steps (snd (get_dmdx env c)) = J1steps c"
  "t0 (snd (get_dmdx env c)) = m_lofx_begin env"
  "tf (snd (get_dmdx env c)) = m_lofx_end env"
  by (simp_all add: get_dmdx_wrap_list split: prod.splits sum.splits)

lemma update_get_term_cost:
  "update env c =
     (case fst (get_term_cost env c) of
        Inl e \<Rightarrow> (Inl e, snd (get_term_cost env c))
      | Inr m \<Rightarrow>
          if J1 c = [] then (Inl IndexOutOfRange, snd (get_term_cost env c))
          else
            (Inr (),
             (snd (get_term_cost env c))
               \<lparr>J1 := fst (integrate_adaptive env (1 / 10 ^ 5) (1 / 10 ^ 5) (m_lofx env)
                            ((J1 c)[0 := m]) (m_lofx_begin env) (m_lofx_end env - 1 / 10 ^ 7)
                            (1 / 100)),
                J1steps := snd (integrate_adaptive env (1 / 10 ^ 5) (1 / 10 ^ 5) (m_lofx env)
                            ((J1 c)[0 := m]) (m_lofx_begin env) (m_lofx_end env - 1 / 10 ^ 7)
                            (1 / 100))\<rparr>))"
  by (simp add: update_def compute_cost_def get_term_cost_cached get_term_cost_fields Let_def
      case_prod_beta split: sum.splits)


lemma dot_sum:
  "length a = n \<Longrightarrow> length b = n \<Longrightarrow> sum_list (map2 (*) a b) = (\<Sum>i<n. a ! i * b ! i)"
  for a b :: "real list"
  by (simp add: sum_list_sum_nth atLeast0LessThan)

lemma transpose_square:
  assumes "square_mat n M"
  shows "transpose M = map (\<lambda>j. map (\<lambda>i. M ! i ! j) [0..<n]) [0..<n]"
proof -
  from assms have len: "length M = n" and rows: "\<And>i. i < length M \<Longrightarrow> length (M ! i) = n"
    by (simp_all add: square_mat_def)
  from len have "M = [] \<Longrightarrow> n = 0"
    by auto
  from transpose_rectangle [OF this rows] len show ?thesis
    by simp
qed

lemma transpose_times_nth:
  assumes "square_mat n M" and "length d = n" and "j < n"
  shows "transpose_times d M ! j = (\<Sum>i<n. d ! i * M ! i ! j)"
  using assms by (simp add: transpose_times_def transpose_square dot_sum)

lemma length_transpose_times:
  "square_mat n M \<Longrightarrow> length (transpose_times d M) = n"
  by (simp add: transpose_times_def transpose_square)

lemma times_vec_quad_form:
  assumes "square_mat n M" and "length d = n"
  shows "times_vec (transpose_times d M) d ! 0 = quad_form n M d"
proof -
  have "times_vec (transpose_times d M) d ! 0 = (\<Sum>j<n. transpose_times d M ! j * d ! j)"
    using assms by (simp add: times_vec_def dot_sum length_transpose_times)
  also have "\<dots> = (\<Sum>j<n. \<Sum>i<n. d ! i * M ! i ! j * d ! j)"
    using assms by (simp add: transpose_times_nth sum_distrib_right)
  also have "\<dots> = quad_form n M d"
    unfolding quad_form_def by (rule sum.swap)
  finally show ?thesis .
qed


lemmas env0_simps =
  env0_def c0_def cost_ctor_def times_vec_def transpose_times_def vec_minus_def one_step_def

lemma get_term_cost_env0: "get_term_cost env0 c = (Inr 1, c\<lparr>x_tf := [1, - 1], t0 := 0, tf := 1, mx_tf := [1, - 1], mxdes_tf := [1, 0], indx := 1\<rparr>)"
  by (simp add: get_term_cost_wrap_list env0_simps)

subsection \<open>Claims\<close>

text \<open>
  C10. Calling \<^verbatim>\<open>get_dmdx\<close>, any number of times and whatever the collaborators
  answer at each call, changes neither the stored total cost nor the stored step count:
  the conversion to \<^verbatim>\<open>double\<close> and \<^verbatim>\<open>steps()\<close> return afterwards what they
  returned before, although each call overwrites the cached window bounds.
\<close>

theorem get_dmdx_keeps_total_cost:
  "operator_double (get_dmdx_seq envs c) = operator_double c \<and>
   steps (get_dmdx_seq envs c) = steps c \<and>
   J1 (get_dmdx_seq envs c) = J1 c \<and>
   t0 (snd (get_dmdx env c)) = m_lofx_begin env \<and>
   tf (snd (get_dmdx env c)) = m_lofx_end env"
proof -
  have "J1 (get_dmdx_seq envs c) = J1 c \<and> J1steps (get_dmdx_seq envs c) = J1steps c"
    by (induction envs arbitrary: c) (simp_all add: get_dmdx_fields)
  then show ?thesis
    by (simp add: operator_double_def steps_def get_dmdx_fields)
qed

text \<open>
  C8. \<^verbatim>\<open>update\<close>, \<^verbatim>\<open>get_term_cost\<close> and \<^verbatim>\<open>get_dmdx\<close> read the window
  bounds from \<^verbatim>\<open>m_lofx.begin()\<close> and \<^verbatim>\<open>m_lofx.end()\<close> at the call: what the
  object holds in \<^verbatim>\<open>t0_\<close> and \<^verbatim>\<open>tf_\<close> from an earlier call has no influence on
  the result or on the object afterwards, and afterwards the two members hold the bounds
  read at this call.
\<close>

theorem bounds_read_at_call_time:
  "get_term_cost env (c\<lparr>t0 := a, tf := b\<rparr>) = get_term_cost env c \<and>
   get_dmdx env (c\<lparr>t0 := a, tf := b\<rparr>) = get_dmdx env c \<and>
   update env (c\<lparr>t0 := a, tf := b\<rparr>) = update env c \<and>
   t0 (snd (get_term_cost env c)) = m_lofx_begin env \<and>
   tf (snd (get_term_cost env c)) = m_lofx_end env \<and>
   t0 (snd (get_dmdx env c)) = m_lofx_begin env \<and>
   tf (snd (get_dmdx env c)) = m_lofx_end env \<and>
   t0 (snd (update env c)) = m_lofx_begin env \<and>
   tf (snd (update env c)) = m_lofx_end env"
proof -
  have "get_dmdx env (c\<lparr>t0 := a, tf := b\<rparr>) = get_dmdx env c"
    by (simp add: get_dmdx_wrap_list split: prod.splits sum.splits)
  moreover have "update env (c\<lparr>t0 := a, tf := b\<rparr>) = update env c"
    by (simp add: update_get_term_cost get_term_cost_cached split: sum.splits)
  moreover have "t0 (snd (update env c)) = m_lofx_begin env"
    by (simp add: update_get_term_cost get_term_cost_fields split: sum.splits)
  moreover have "tf (snd (update env c)) = m_lofx_end env"
    by (simp add: update_get_term_cost get_term_cost_fields split: sum.splits)
  ultimately show ?thesis
    by (simp add: get_term_cost_cached get_term_cost_fields get_dmdx_fields)
qed


text \<open>
  C3. \<^verbatim>\<open>get_dmdx\<close> goes through the steps of \<^verbatim>\<open>get_term_cost\<close> (sample at
  \<open>tf\<close>, wrap, \<^verbatim>\<open>State2Mat\<close>, \<^verbatim>\<open>get_DesTraj\<close>) and leaves the object as
  \<^verbatim>\<open>get_term_cost\<close> would; it fails where \<^verbatim>\<open>get_term_cost\<close> fails and otherwise
  returns \<open>(x - x_des)\<^sup>T P\<close> for the vectors it has just stored, entry \<open>j\<close> being
  \<open>\<Sum>i. (x\<^sub>i - x_des\<^sub>i) P\<^sub>i\<^sub>j\<close>. The result is computed anew at each call: it is the same
  from any state of the object.
\<close>

theorem get_dmdx_gradient:
  "snd (get_dmdx env c) = snd (get_term_cost env c) \<and>
   fst (get_dmdx env c) =
     (case fst (get_term_cost env c) of
        Inl e \<Rightarrow> Inl e
      | Inr m \<Rightarrow>
          Inr (transpose_times
                 (vec_minus (mx_tf (snd (get_dmdx env c))) (mxdes_tf (snd (get_dmdx env c))))
                 (P env))) \<and>
   fst (get_dmdx env c') = fst (get_dmdx env c) \<and>
   (fst (get_dmdx env c) = Inr g \<longrightarrow>
      x_tf (snd (get_dmdx env c)) =
        snd (snd (wrap_list (AngleWrap env) (x_wrap env) (m_x_intp env (m_lofx_end env)))) \<and>
      mx_tf (snd (get_dmdx env c)) = State2Mat env (x_tf (snd (get_dmdx env c))) \<and>
      mxdes_tf (snd (get_dmdx env c)) = get_DesTraj env (m_lofx_end env)) \<and>
   (fst (get_dmdx env c) = Inr g \<and> square_mat (xlen env) (P env) \<and>
    length (mx_tf (snd (get_dmdx env c))) = xlen env \<and>
    length (mxdes_tf (snd (get_dmdx env c))) = xlen env \<and> j < xlen env \<longrightarrow>
      g ! j =
        (\<Sum>i<xlen env. (mx_tf (snd (get_dmdx env c)) ! i - mxdes_tf (snd (get_dmdx env c)) ! i) *
           P env ! i ! j))"
proof -
  have same: "snd (get_dmdx env c) = snd (get_term_cost env c)"
    by (simp add: get_dmdx_wrap_list get_term_cost_wrap_list split: prod.splits sum.splits)
  have val: "fst (get_dmdx env c) =
     (case fst (get_term_cost env c) of
        Inl e \<Rightarrow> Inl e
      | Inr m \<Rightarrow>
          Inr (transpose_times
                 (vec_minus (mx_tf (snd (get_dmdx env c))) (mxdes_tf (snd (get_dmdx env c))))
                 (P env)))"
    by (simp add: get_dmdx_wrap_list get_term_cost_wrap_list split: prod.splits sum.splits)
  have fresh: "fst (get_dmdx env c') = fst (get_dmdx env c)"
    by (simp add: get_dmdx_wrap_list split: prod.splits sum.splits)
  have stored: "fst (get_dmdx env c) = Inr g \<longrightarrow>
      x_tf (snd (get_dmdx env c)) =
        snd (snd (wrap_list (AngleWrap env) (x_wrap env) (m_x_intp env (m_lofx_end env)))) \<and>
      mx_tf (snd (get_dmdx env c)) = State2Mat env (x_tf (snd (get_dmdx env c))) \<and>
      mxdes_tf (snd (get_dmdx env c)) = get_DesTraj env (m_lofx_end env)"
    by (simp add: get_dmdx_wrap_list split: prod.splits sum.splits)
  have entry: "g ! j =
        (\<Sum>i<xlen env. (mx_tf (snd (get_dmdx env c)) ! i - mxdes_tf (snd (get_dmdx env c)) ! i) *
           P env ! i ! j)"
    if g: "fst (get_dmdx env c) = Inr g" and sq: "square_mat (xlen env) (P env)"
      and lx: "length (mx_tf (snd (get_dmdx env c))) = xlen env"
      and ld: "length (mxdes_tf (snd (get_dmdx env c))) = xlen env" and j: "j < xlen env"
  proof -
    let ?d = "vec_minus (mx_tf (snd (get_dmdx env c))) (mxdes_tf (snd (get_dmdx env c)))"
    from g val have "g = transpose_times ?d (P env)"
      by (simp split: sum.splits)
    moreover from lx ld have "length ?d = xlen env"
      by (simp add: vec_minus_def)
    ultimately have "g ! j = (\<Sum>i<xlen env. ?d ! i * P env ! i ! j)"
      using sq j by (simp add: transpose_times_nth)
    also have "\<dots> = (\<Sum>i<xlen env.
        (mx_tf (snd (get_dmdx env c)) ! i - mxdes_tf (snd (get_dmdx env c)) ! i) * P env ! i ! j)"
      using lx ld by (simp add: vec_minus_def)
    finally show ?thesis .
  qed
  from same val fresh stored entry show ?thesis
    by blast
qed

theorem get_dmdx_gradient_witness:
  "fst (get_dmdx env0 c0) = Inr [0, - 1] \<and> square_mat (xlen env0) (P env0) \<and>
   mx_tf (snd (get_dmdx env0 c0)) = [1, - 1] \<and> mxdes_tf (snd (get_dmdx env0 c0)) = [1, 0] \<and>
   [0, - 1 :: real] ! 1 =
     (\<Sum>i<xlen env0. (mx_tf (snd (get_dmdx env0 c0)) ! i - mxdes_tf (snd (get_dmdx env0 c0)) ! i) *
        P env0 ! i ! 1)"
proof -
  have g: "fst (get_dmdx env0 c0) = Inr [0, - 1]"
    by (simp add: get_dmdx_wrap_list env0_simps)
  have sq: "square_mat (xlen env0) (P env0)"
    by (simp add: square_mat_def env0_def)
  have mx: "mx_tf (snd (get_dmdx env0 c0)) = [1, - 1]"
    and mxdes: "mxdes_tf (snd (get_dmdx env0 c0)) = [1, 0]"
    by (simp_all add: get_dmdx_wrap_list env0_simps)
  have len: "length (mx_tf (snd (get_dmdx env0 c0))) = xlen env0"
    "length (mxdes_tf (snd (get_dmdx env0 c0))) = xlen env0" "1 < xlen env0"
    by (simp_all add: mx mxdes) (simp_all add: env0_def)
  from get_dmdx_gradient [of env0 c0 c0 "[0, - 1]" 1] g sq len
  have "[0, - 1 :: real] ! 1 =
     (\<Sum>i<xlen env0. (mx_tf (snd (get_dmdx env0 c0)) ! i - mxdes_tf (snd (get_dmdx env0 c0)) ! i) *
        P env0 ! i ! 1)"
    by blast
  with g sq mx mxdes show ?thesis
    by blast
qed


text \<open>
  C4. On a window without length (\<open>t0 = tf\<close>), with an integrator that takes no step and
  leaves the vector alone when the end of the interval is not after its start,
  \<^verbatim>\<open>update\<close> stores exactly the terminal cost as total cost and 0 as step count.
\<close>

theorem update_zero_length_window:
  assumes "no_step_when_empty (integrate_adaptive env)"
    and "m_lofx_begin env = m_lofx_end env"
    and "fst (get_term_cost env c) = Inr m"
    and "length (J1 c) = 1"
  shows "fst (update env c) = Inr () \<and> operator_double (snd (update env c)) = Inr m \<and>
     steps (snd (update env c)) = 0 \<and> J1 (snd (update env c)) = [m]"
proof -
  from assms(4) have seed: "(J1 c)[0 := m] = [m]" and ne: "J1 c \<noteq> []"
    by (cases "J1 c"; simp)+
  have "integrate_adaptive env (1 / 10 ^ 5) (1 / 10 ^ 5) (m_lofx env) [m]
          (m_lofx_end env) (m_lofx_end env - 1 / 10 ^ 7) (1 / 100) = ([m], 0)"
    using assms(1) by (simp add: no_step_when_empty_def)
  with assms(2,3) seed ne show ?thesis
    by (simp add: update_get_term_cost steps_def operator_double_def)
qed

theorem update_zero_length_window_witness:
  "no_step_when_empty (integrate_adaptive env_zero_window) \<and>
   m_lofx_begin env_zero_window = m_lofx_end env_zero_window \<and>
   fst (get_term_cost env_zero_window c0) = Inr 1 \<and> length (J1 c0) = 1 \<and>
   fst (update env_zero_window c0) = Inr () \<and>
   operator_double (snd (update env_zero_window c0)) = Inr 1 \<and>
   steps (snd (update env_zero_window c0)) = 0"
proof -
  have a: "no_step_when_empty (integrate_adaptive env_zero_window)"
    by (simp add: no_step_when_empty_def env_zero_window_def env0_def one_step_def)
  have b: "m_lofx_begin env_zero_window = m_lofx_end env_zero_window"
    by (simp add: env_zero_window_def env0_def)
  have m: "fst (get_term_cost env_zero_window c0) = Inr 1"
    by (simp add: get_term_cost_wrap_list env_zero_window_def env0_simps)
  have l: "length (J1 c0) = 1"
    by (simp add: c0_def cost_ctor_def)
  from update_zero_length_window [OF a b m l] a b m l show ?thesis
    by simp
qed

text \<open>
  C5, as the code has it. \<^verbatim>\<open>update\<close> compares \<open>t0\<close> and \<open>tf\<close> nowhere. On a window
  whose end is before its start it obtains the terminal cost, calls the integrator on the
  interval from \<open>t0\<close> to \<open>tf - 1e-7\<close> and stores the vector and the step count the
  integrator returns.
\<close>

theorem update_checks_no_window:
  assumes "m_lofx_end env < m_lofx_begin env"
    and "fst (get_term_cost env c) = Inr m" and "J1 c \<noteq> []"
  shows "fst (update env c) = Inr () \<and>
     (J1 (snd (update env c)), J1steps (snd (update env c))) =
       integrate_adaptive env (1 / 10 ^ 5) (1 / 10 ^ 5) (m_lofx env) ((J1 c)[0 := m])
         (m_lofx_begin env) (m_lofx_end env - 1 / 10 ^ 7) (1 / 100)"
  using assms(2,3) by (simp add: update_get_term_cost)

theorem update_checks_no_window_witness:
  "m_lofx_end env_reversed_window < m_lofx_begin env_reversed_window \<and>
   fst (get_term_cost env_reversed_window c0) = Inr 1 \<and> J1 c0 \<noteq> [] \<and>
   fst (update env_reversed_window c0) = Inr () \<and>
   (J1 (snd (update env_reversed_window c0)), J1steps (snd (update env_reversed_window c0))) =
     ([1], 0)"
proof -
  have a: "m_lofx_end env_reversed_window < m_lofx_begin env_reversed_window"
    by (simp add: env_reversed_window_def env0_def)
  have m: "fst (get_term_cost env_reversed_window c0) = Inr 1"
    by (simp add: get_term_cost_wrap_list env_reversed_window_def env0_simps)
  have ne: "J1 c0 \<noteq> []"
    by (simp add: c0_def cost_ctor_def)
  from update_checks_no_window [OF a m ne] a m ne show ?thesis
    by (simp add: env_reversed_window_def env0_simps)
qed

text \<open>
  C5 as the specification states it fails: with \<open>t0 = 2\<close> and \<open>tf = 1\<close> \<^verbatim>\<open>update\<close> returns
  normally and has stored a total cost and a step count.
\<close>

theorem update_reversed_window_counterexample:
  "m_lofx_end env_reversed_window < m_lofx_begin env_reversed_window \<and>
   fst (update env_reversed_window c0) = Inr () \<and>
   operator_double (snd (update env_reversed_window c0)) = Inr 1 \<and>
   steps (snd (update env_reversed_window c0)) = 0"
  by (simp add: update_get_term_cost get_term_cost_wrap_list env_reversed_window_def env0_simps
      operator_double_def steps_def)


text \<open>
  C6, as the code has it. The constructor builds the accumulator as one entry of value
  \<open>0\<close>, so the conversion to \<^verbatim>\<open>double\<close> of an object that was never updated
  returns \<open>0\<close>. After an \<^verbatim>\<open>update\<close> that obtained the terminal cost \<open>m\<close> it returns
  entry 0 of the vector the integrator left.
\<close>

theorem operator_double_value:
  "operator_double (cost_ctor env mx_uninit indx_uninit) = Inr 0 \<and>
   (fst (get_term_cost env c) = Inr m \<and> J1 c \<noteq> [] \<and>
    integrate_adaptive env (1 / 10 ^ 5) (1 / 10 ^ 5) (m_lofx env) ((J1 c)[0 := m])
      (m_lofx_begin env) (m_lofx_end env - 1 / 10 ^ 7) (1 / 100) = (s, n) \<and> s \<noteq> [] \<longrightarrow>
    fst (update env c) = Inr () \<and> operator_double (snd (update env c)) = Inr (s ! 0))"
  by (simp add: operator_double_def cost_ctor_def update_get_term_cost)

theorem operator_double_value_witness:
  "operator_double (cost_ctor env0 [] 0) = Inr 0 \<and>
   fst (get_term_cost env0 c0) = Inr 1 \<and> J1 c0 \<noteq> [] \<and>
   integrate_adaptive env0 (1 / 10 ^ 5) (1 / 10 ^ 5) (m_lofx env0) ((J1 c0)[0 := 1])
     (m_lofx_begin env0) (m_lofx_end env0 - 1 / 10 ^ 7) (1 / 100) = ([14999999 / 5000000], 1) \<and>
   fst (update env0 c0) = Inr () \<and>
   operator_double (snd (update env0 c0)) = Inr (14999999 / 5000000)"
proof -
  have m: "fst (get_term_cost env0 c0) = Inr 1"
    by (simp add: get_term_cost_env0)
  have ne: "J1 c0 \<noteq> []"
    by (simp add: c0_def cost_ctor_def)
  have i: "integrate_adaptive env0 (1 / 10 ^ 5) (1 / 10 ^ 5) (m_lofx env0) ((J1 c0)[0 := 1])
     (m_lofx_begin env0) (m_lofx_end env0 - 1 / 10 ^ 7) (1 / 100) = ([14999999 / 5000000], 1)"
    by (simp add: env0_simps)
  from operator_double_value [of env0 "[]" 0 c0 1 "[14999999 / 5000000]" 1] m ne i
  show ?thesis
    by simp
qed

text \<open>
  C6 as the specification states it fails: on a freshly constructed object the conversion is
  defined and returns \<open>0\<close>.
\<close>

theorem operator_double_fresh_counterexample:
  "operator_double (cost_ctor env0 [] 0) = Inr 0"
  by (simp add: operator_double_def cost_ctor_def)

text \<open>
  C7. With the collaborators answering the same, a second \<^verbatim>\<open>update\<close> leaves the
  object exactly as the first did, total cost and step count included. The accumulator
  has its one entry before and after the first call.
\<close>

theorem update_idempotent:
  assumes "update env c = (Inr (), c')" and "length (J1 c) = 1" and "length (J1 c') = 1"
  shows "update env c' = (Inr (), c') \<and>
     operator_double (snd (update env c')) = operator_double c' \<and>
     steps (snd (update env c')) = steps c'"
proof -
  from assms(2,3) have ne: "J1 c \<noteq> []" and ne': "J1 c' \<noteq> []"
    by auto
  from assms(1) ne obtain m where m: "fst (get_term_cost env c) = Inr m"
    by (cases "fst (get_term_cost env c)") (simp_all add: update_get_term_cost)
  have seed: "(J1 c)[0 := m] = [m]" "(J1 c')[0 := m] = [m]"
    using assms(2,3) by (cases "J1 c"; cases "J1 c'"; simp)+
  define i where "i = integrate_adaptive env (1 / 10 ^ 5) (1 / 10 ^ 5) (m_lofx env) [m]
     (m_lofx_begin env) (m_lofx_end env - 1 / 10 ^ 7) (1 / 100)"
  from assms(1) m ne seed(1)
  have c': "c' = (snd (get_term_cost env c))\<lparr>J1 := fst i, J1steps := snd i\<rparr>"
    by (simp add: update_get_term_cost i_def)
  have m': "fst (get_term_cost env c') = Inr m"
    using m by (simp add: get_term_cost_any_object [of env c' c])
  have "snd (get_term_cost env c') = c'"
    unfolding c' by (rule get_term_cost_again)
  with m' ne' seed(2) have "update env c' = (Inr (), c'\<lparr>J1 := fst i, J1steps := snd i\<rparr>)"
    by (simp add: update_get_term_cost i_def)
  also have "c'\<lparr>J1 := fst i, J1steps := snd i\<rparr> = c'"
  proof -
    have "J1 c' = fst i" and "J1steps c' = snd i"
      by (simp_all add: c')
    then show ?thesis
      by (cases c') simp
  qed
  finally show ?thesis
    by simp
qed

theorem update_idempotent_witness:
  "fst (update env0 c0) = Inr () \<and> length (J1 c0) = 1 \<and> length (J1 (snd (update env0 c0))) = 1 \<and>
   update env0 (snd (update env0 c0)) = (Inr (), snd (update env0 c0)) \<and>
   operator_double (snd (update env0 (snd (update env0 c0)))) = Inr (14999999 / 5000000) \<and>
   steps (snd (update env0 (snd (update env0 c0)))) = 1"
proof -
  have u: "fst (update env0 c0) = Inr ()"
    by (simp add: update_get_term_cost get_term_cost_env0) (simp add: c0_def cost_ctor_def)
  then have a: "update env0 c0 = (Inr (), snd (update env0 c0))"
    by (simp add: prod_eq_iff)
  have l: "length (J1 c0) = 1"
    by (simp add: c0_def cost_ctor_def)
  have j: "J1 (snd (update env0 c0)) = [14999999 / 5000000]"
    and n: "J1steps (snd (update env0 c0)) = 1"
    by (simp_all add: update_get_term_cost get_term_cost_env0) (simp_all add: env0_simps)
  then have l': "length (J1 (snd (update env0 c0))) = 1"
    by simp
  from update_idempotent [OF a l l'] u l l' j n show ?thesis
    by (simp add: operator_double_def steps_def)
qed


subsection \<open>The modelled angle wrap\<close>

lemma AngleWrap_spec_range: "- pi < AngleWrap_spec \<theta> \<and> AngleWrap_spec \<theta> \<le> pi"
proof -
  define l where "l = \<lceil>(\<theta> - pi) / (2 * pi)\<rceil>"
  have pos: "0 < 2 * pi"
    by simp
  have "of_int l - 1 < (\<theta> - pi) / (2 * pi)" and "(\<theta> - pi) / (2 * pi) \<le> of_int l"
    unfolding l_def by linarith+
  then have "(of_int l - 1) * (2 * pi) < \<theta> - pi" and "\<theta> - pi \<le> of_int l * (2 * pi)"
    by (simp_all only: pos_less_divide_eq [OF pos] pos_divide_le_eq [OF pos])
  then have "- pi < \<theta> - 2 * pi * of_int l \<and> \<theta> - 2 * pi * of_int l \<le> pi"
    by (simp add: algebra_simps)
  then show ?thesis
    by (simp only: AngleWrap_spec_def l_def)
qed

lemma AngleWrap_spec_equiv: "\<exists>k::int. AngleWrap_spec \<theta> = \<theta> + 2 * pi * of_int k"
proof -
  have "AngleWrap_spec \<theta> = \<theta> + 2 * pi * of_int (- \<lceil>(\<theta> - pi) / (2 * pi)\<rceil>)"
    by (simp add: AngleWrap_spec_def)
  then show ?thesis ..
qed

lemma wraps_into_AngleWrap_spec: "wraps_into (\<lambda>\<theta>. - pi < \<theta> \<and> \<theta> \<le> pi) AngleWrap_spec"
  unfolding wraps_into_def using AngleWrap_spec_range AngleWrap_spec_equiv by blast

lemma AngleWrap_spec_4: "AngleWrap_spec 4 = 4 - 2 * pi"
proof -
  have "0 < (4 - pi) / (2 * pi)"
    using pi_less_4 pi_gt_zero by simp
  moreover have "(4 - pi) / (2 * pi) \<le> 1"
    using pi_ge_two by simp
  ultimately have "\<lceil>(4 - pi) / (2 * pi)\<rceil> = 1"
    by (simp add: ceiling_eq_iff)
  then show ?thesis
    by (simp add: AngleWrap_spec_def)
qed

lemma wraps_into_funpow:
  assumes "wraps_into canon aw" and "0 < n"
  shows "canon ((aw ^^ n) \<theta>) \<and> (\<exists>k::int. (aw ^^ n) \<theta> = \<theta> + 2 * pi * of_int k)"
proof -
  have equiv: "\<exists>k::int. (aw ^^ n) \<theta> = \<theta> + 2 * pi * of_int k" for n
  proof (induction n)
    case 0
    have "(aw ^^ 0) \<theta> = \<theta> + 2 * pi * of_int 0"
      by simp
    then show ?case ..
  next
    case (Suc n)
    then obtain k :: int where k: "(aw ^^ n) \<theta> = \<theta> + 2 * pi * of_int k" ..
    from assms(1) obtain l :: int where "aw ((aw ^^ n) \<theta>) = (aw ^^ n) \<theta> + 2 * pi * of_int l"
      unfolding wraps_into_def by blast
    with k have "(aw ^^ Suc n) \<theta> = \<theta> + 2 * pi * of_int (k + l)"
      by (simp add: algebra_simps)
    then show ?case ..
  qed
  from assms(2) obtain n' where "n = Suc n'"
    by (cases n) auto
  with assms(1) have "canon ((aw ^^ n) \<theta>)"
    by (simp add: wraps_into_def)
  with equiv show ?thesis
    by blast
qed

lemma x_tf_get_term_cost:
  "x_tf (snd (get_term_cost env c)) =
     snd (snd (wrap_list (AngleWrap env) (x_wrap env) (m_x_intp env (m_lofx_end env))))"
  by (simp add: get_term_cost_wrap_list split: prod.splits sum.splits)

lemma x_tf_get_dmdx:
  "x_tf (snd (get_dmdx env c)) =
     snd (snd (wrap_list (AngleWrap env) (x_wrap env) (m_x_intp env (m_lofx_end env))))"
  by (simp add: get_dmdx_wrap_list split: prod.splits sum.splits)

lemma get_term_cost_ok_iff:
  "(\<exists>m. fst (get_term_cost env c) = Inr m) \<longleftrightarrow>
     (\<forall>k\<in>set (x_wrap env). k < length (m_x_intp env (m_lofx_end env)))"
  using wrap_list_ok_iff [of "AngleWrap env" "x_wrap env" "m_x_intp env (m_lofx_end env)"]
  by (auto simp add: get_term_cost_wrap_list split: prod.splits sum.splits)

text \<open>
  C9. The wrapping step of \<^verbatim>\<open>get_term_cost\<close> and of \<^verbatim>\<open>get_dmdx\<close> turns the
  sampled state \<open>x\<close> into a vector \<open>x'\<close> of the same length in which, whatever
  \<^verbatim>\<open>AngleWrap\<close> does, every component whose index is not in \<^verbatim>\<open>x_wrap\<close> is the one
  of \<open>x\<close>. When the indices of \<^verbatim>\<open>x_wrap\<close> are within the vector, the function goes on
  to the cost and component \<open>j\<close> of \<open>x'\<close> is \<^verbatim>\<open>AngleWrap\<close> applied to component \<open>j\<close>
  of \<open>x\<close> once for each occurrence of \<open>j\<close> in \<^verbatim>\<open>x_wrap\<close>; so, for an
  \<^verbatim>\<open>AngleWrap\<close> that wraps into a canonical range, every component whose index is in
  \<^verbatim>\<open>x_wrap\<close> lies in that range and differs from the one of \<open>x\<close> by a multiple of
  \<open>2\<pi>\<close>.
\<close>

theorem angle_wrap_only_indexed:
  assumes "x = m_x_intp env (m_lofx_end env)"
    and "x' = x_tf (snd (get_term_cost env c))"
  shows "length x' = length x \<and> x_tf (snd (get_dmdx env c)) = x' \<and>
     (\<forall>j. j \<notin> set (x_wrap env) \<longrightarrow> x' ! j = x ! j) \<and>
     ((\<forall>k\<in>set (x_wrap env). k < length x) \<longrightarrow>
        (\<exists>m. fst (get_term_cost env c) = Inr m) \<and>
        (\<forall>j<length x. x' ! j = (AngleWrap env ^^ count_list (x_wrap env) j) (x ! j)) \<and>
        (wraps_into canon (AngleWrap env) \<longrightarrow>
           (\<forall>j\<in>set (x_wrap env).
              canon (x' ! j) \<and> (\<exists>k::int. x' ! j = x ! j + 2 * pi * of_int k))))"
proof -
  have x': "x' = snd (snd (wrap_list (AngleWrap env) (x_wrap env) x))"
    using assms by (simp add: x_tf_get_term_cost)
  have len: "length x' = length x"
    unfolding x' by (rule wrap_list_length)
  have same: "x_tf (snd (get_dmdx env c)) = x'"
    using assms by (simp add: x_tf_get_dmdx x_tf_get_term_cost)
  have frame: "\<forall>j. j \<notin> set (x_wrap env) \<longrightarrow> x' ! j = x ! j"
    unfolding x' by (simp add: wrap_list_frame)
  have nth: "x' ! j = (AngleWrap env ^^ count_list (x_wrap env) j) (x ! j)"
    if "\<forall>k\<in>set (x_wrap env). k < length x" and "j < length x" for j
    unfolding x' using that by (rule wrap_list_nth)
  have wrapped: "canon (x' ! j) \<and> (\<exists>k::int. x' ! j = x ! j + 2 * pi * of_int k)"
    if inr: "\<forall>k\<in>set (x_wrap env). k < length x" and w: "wraps_into canon (AngleWrap env)"
      and j: "j \<in> set (x_wrap env)" for j
  proof -
    from inr j have "j < length x"
      by blast
    with inr have "x' ! j = (AngleWrap env ^^ count_list (x_wrap env) j) (x ! j)"
      by (rule nth)
    moreover from j have "0 < count_list (x_wrap env) j"
      by (simp add: count_list_0_iff zero_less_iff_neq_zero)
    ultimately show ?thesis
      using wraps_into_funpow [OF w, of "count_list (x_wrap env) j" "x ! j"]
      by simp
  qed
  have ok: "\<exists>m. fst (get_term_cost env c) = Inr m" if "\<forall>k\<in>set (x_wrap env). k < length x"
    using that assms(1) by (simp add: get_term_cost_ok_iff)
  from len same frame nth wrapped ok show ?thesis
    by blast
qed

theorem angle_wrap_only_indexed_witness:
  "m_x_intp env_wrap_spec (m_lofx_end env_wrap_spec) = [4, 4] \<and> x_wrap env_wrap_spec = [1] \<and>
   wraps_into (\<lambda>\<theta>. - pi < \<theta> \<and> \<theta> \<le> pi) (AngleWrap env_wrap_spec) \<and>
   length (x_tf (snd (get_term_cost env_wrap_spec c0))) = 2 \<and>
   x_tf (snd (get_dmdx env_wrap_spec c0)) = x_tf (snd (get_term_cost env_wrap_spec c0)) \<and>
   x_tf (snd (get_term_cost env_wrap_spec c0)) ! 0 = 4 \<and>
   x_tf (snd (get_term_cost env_wrap_spec c0)) ! 1 = 4 - 2 * pi \<and>
   - pi < x_tf (snd (get_term_cost env_wrap_spec c0)) ! 1 \<and>
   x_tf (snd (get_term_cost env_wrap_spec c0)) ! 1 \<le> pi"
proof -
  define x' where "x' = x_tf (snd (get_term_cost env_wrap_spec c0))"
  have x: "[4, 4] = m_x_intp env_wrap_spec (m_lofx_end env_wrap_spec)"
    by (simp add: env_wrap_spec_def env0_def)
  have w: "x_wrap env_wrap_spec = [1]"
    by (simp add: env_wrap_spec_def env0_def)
  have aw: "AngleWrap env_wrap_spec = AngleWrap_spec"
    by (simp add: env_wrap_spec_def)
  have c: "wraps_into (\<lambda>\<theta>. - pi < \<theta> \<and> \<theta> \<le> pi) (AngleWrap env_wrap_spec)"
    unfolding aw by (rule wraps_into_AngleWrap_spec)
  note t = angle_wrap_only_indexed [OF x x'_def, where canon = "\<lambda>\<theta>. - pi < \<theta> \<and> \<theta> \<le> pi"]
  have inr: "\<forall>k\<in>set (x_wrap env_wrap_spec). k < length [4, 4 :: real]"
    by (simp add: w)
  from t have len: "length x' = 2" and same: "x_tf (snd (get_dmdx env_wrap_spec c0)) = x'"
    by simp_all
  from t have "x' ! 0 = [4, 4] ! 0"
    by (simp add: w)
  then have zero: "x' ! 0 = 4"
    by simp
  from t inr have "\<forall>j<length [4, 4 :: real].
      x' ! j = (AngleWrap env_wrap_spec ^^ count_list (x_wrap env_wrap_spec) j) ([4, 4] ! j)"
    by blast
  then have "x' ! 1 = (AngleWrap env_wrap_spec ^^ count_list (x_wrap env_wrap_spec) 1) ([4, 4] ! 1)"
    by simp
  then have one: "x' ! 1 = 4 - 2 * pi"
    by (simp add: w aw AngleWrap_spec_4)
  from t inr c have "\<forall>j\<in>set (x_wrap env_wrap_spec).
      (- pi < x' ! j \<and> x' ! j \<le> pi) \<and> (\<exists>k::int. x' ! j = [4, 4] ! j + 2 * pi * of_int k)"
    by blast
  then have range: "- pi < x' ! 1 \<and> x' ! 1 \<le> pi"
    by (simp add: w)
  from x [symmetric] w c len same zero one range show ?thesis
    unfolding x'_def by (intro conjI) simp_all
qed

subsection \<open>The terminal cost as a quadratic form\<close>

lemma quad_form_zero: "quad_form n M (replicate n 0) = 0"
  by (simp add: quad_form_def)

lemma vec_minus_zero_iff:
  "length a = n \<Longrightarrow> length b = n \<Longrightarrow> vec_minus a b = replicate n 0 \<longleftrightarrow> a = b"
proof (induction a arbitrary: b n)
  case Nil
  then show ?case by (simp add: vec_minus_def)
next
  case (Cons x a)
  then obtain y b' where b: "b = y # b'"
    by (cases b) auto
  with Cons.prems obtain n' where n: "n = Suc n'"
    by (cases n) auto
  from Cons.IH [of n' b'] Cons.prems b n show ?case
    by (simp add: vec_minus_def)
qed

lemma quad_form_env0: "quad_form 2 [[2, 0], [0, 1]] [a, b] = 2 * a * a + b * b"
  by (simp add: quad_form_def numeral_2_eq_2)

lemma length_2: "length v = 2 \<Longrightarrow> \<exists>a b. v = [a, b]"
  by (cases v; cases "tl v") auto

lemma pos_def_env0: "pos_def (xlen env0) (P env0)"
proof -
  have sym: "symmetric_mat 2 [[2, 0], [0, 1 :: real]]"
    by (simp add: symmetric_mat_def less_Suc_eq numeral_2_eq_2)
  have "0 < quad_form 2 [[2, 0], [0, 1]] v" if "length v = 2" and "v \<noteq> replicate 2 0" for v
  proof -
    from that(1) obtain a b where v: "v = [a, b]"
      using length_2 by blast
    with that(2) have "a \<noteq> 0 \<or> b \<noteq> 0"
      by (auto simp add: numeral_2_eq_2)
    then have "0 < a * a \<or> 0 < b * b"
      by (simp add: zero_less_mult_iff) arith
    moreover have "0 \<le> a * a" and "0 \<le> b * b"
      by simp_all
    ultimately have "0 < 2 * (a * a) + b * b"
      by arith
    then show ?thesis
      by (simp add: v quad_form_env0)
  qed
  with sym show ?thesis
    by (simp add: pos_def_def env0_def)
qed

lemma pos_semidef_env0: "pos_semidef (xlen env0) (P env0)"
proof -
  have sym: "symmetric_mat 2 [[2, 0], [0, 1 :: real]]"
    by (simp add: symmetric_mat_def less_Suc_eq numeral_2_eq_2)
  have "0 \<le> quad_form 2 [[2, 0], [0, 1]] v" if "length v = 2" for v
  proof -
    from that obtain a b where v: "v = [a, b]"
      using length_2 by blast
    show ?thesis
      by (simp add: v quad_form_env0)
  qed
  with sym show ?thesis
    by (simp add: pos_semidef_def env0_def)
qed

subsection \<open>Rounding to binary64\<close>

lemma round_even_of_int: "round_even (of_int k) = k"
  by (simp add: round_even_def)

lemma round_even_small: "0 \<le> y \<Longrightarrow> y < 1 / 2 \<Longrightarrow> round_even y = 0"
proof -
  assume "0 \<le> y" "y < 1 / 2"
  then have "\<lfloor>y\<rfloor> = 0"
    by (simp add: floor_eq_iff)
  with \<open>y < 1 / 2\<close> show ?thesis
    by (simp add: round_even_def)
qed

lemma b64_zero: "b64 0 = 0"
  using round_even_of_int [of 0] by (simp add: b64_def)

lemma b64_underflow: "0 \<le> x \<Longrightarrow> x < 1 / 2 ^ 1075 \<Longrightarrow> b64 x = 0"
proof -
  assume x: "0 \<le> x" "x < 1 / 2 ^ 1075"
  have "(1 :: real) / 2 ^ 1075 < 1 / 2 ^ 1022"
    by (simp add: field_simps power_strict_increasing)
  with x have u: "b64_ulp x = 1 / 2 ^ 1074"
    by (simp add: b64_ulp_def)
  have "x * 2 ^ 1074 < 1 / 2 ^ 1075 * 2 ^ 1074"
    using x(2) by (rule mult_strict_right_mono) simp
  also have "\<dots> = 1 / 2"
    by (simp add: power_add [symmetric] field_simps)
  finally have "x / b64_ulp x < 1 / 2"
    by (simp add: u)
  moreover have "0 \<le> x / b64_ulp x"
    using x(1) by (simp add: u)
  ultimately show ?thesis
    by (simp add: b64_def round_even_small)
qed

lemma log2_inverse_power: "log 2 (1 / 2 ^ n) = - real n"
  by (simp add: log_divide log_nat_power)

lemma b64_ulp_inverse_power:
  assumes "n \<le> 1022"
  shows "b64_ulp (1 / 2 ^ n) = 1 / 2 ^ (n + 52)"
proof -
  have "(2 :: real) ^ n \<le> 2 ^ 1022"
    using assms by (intro power_increasing) simp_all
  then have "(1 :: real) / 2 ^ 1022 \<le> 1 / 2 ^ n"
    by (intro frac_le) simp_all
  then have "b64_ulp (1 / 2 ^ n) = 2 powr of_int (\<lfloor>log 2 (1 / 2 ^ n)\<rfloor> - 52)"
    by (simp add: b64_ulp_def)
  also have "\<lfloor>log 2 (1 / 2 ^ n :: real)\<rfloor> = - int n"
  proof -
    have "log 2 (1 / 2 ^ n :: real) = of_int (- int n)"
      by (simp add: log2_inverse_power)
    then show ?thesis
      by (simp only: floor_of_int)
  qed
  also have "2 powr of_int (- int n - 52) = (1 :: real) / 2 ^ (n + 52)"
  proof -
    have "of_int (- int n - 52) = - real (n + 52)"
      by simp
    then have "2 powr of_int (- int n - 52) = 2 powr (- real (n + 52))"
      by simp
    also have "\<dots> = 1 / 2 powr real (n + 52)"
      by (simp only: powr_minus_divide)
    also have "(2 :: real) powr real (n + 52) = 2 ^ (n + 52)"
      by (rule powr_realpow) simp
    finally show ?thesis .
  qed
  finally show ?thesis .
qed

lemma b64_inverse_power:
  assumes "n \<le> 1022"
  shows "b64 (1 / 2 ^ n) = 1 / 2 ^ n"
proof -
  have "(1 :: real) / 2 ^ n / (1 / 2 ^ (n + 52)) = of_int (2 ^ 52)"
    by (simp add: power_add)
  then have "round_even (1 / 2 ^ n / (1 / 2 ^ (n + 52))) = 2 ^ 52"
    by (simp only: round_even_of_int)
  then show ?thesis
    by (simp add: b64_def b64_ulp_inverse_power [OF assms] power_add)
qed

lemma floor_log2:
  assumes "2 ^ e \<le> x" and "x < 2 ^ Suc e"
  shows "\<lfloor>log 2 x\<rfloor> = int e"
proof -
  from assms(1) have pos: "0 < x"
    by (rule less_le_trans [rotated]) simp
  have "real e \<le> log 2 x"
    using assms(1) pos by (simp add: le_log_iff powr_realpow)
  moreover have "log 2 x < real e + 1"
  proof -
    have "x < 2 powr (real e + 1)"
      using assms(2) by (simp add: powr_add powr_realpow)
    then show ?thesis
      using pos by (simp add: log_less_iff)
  qed
  ultimately show ?thesis
    by (simp add: floor_eq_iff)
qed

lemma b64_ulp_range:
  assumes "2 ^ e \<le> \<bar>x\<bar>" and "\<bar>x\<bar> < 2 ^ Suc e"
  shows "b64_ulp x = 2 ^ e / 2 ^ 52"
proof -
  have "(1 :: real) / 2 ^ 1022 \<le> 1"
    by simp
  also have "(1 :: real) \<le> 2 ^ e"
    by simp
  finally have "\<not> \<bar>x\<bar> < 1 / 2 ^ 1022"
    using assms(1) by linarith
  then have "b64_ulp x = 2 powr of_int (\<lfloor>log 2 \<bar>x\<bar>\<rfloor> - 52)"
    by (simp add: b64_ulp_def)
  also have "\<dots> = 2 powr (real e - real 52)"
    by (simp add: floor_log2 [OF assms])
  also have "\<dots> = 2 powr real e / 2 powr real 52"
    by (rule powr_diff)
  also have "\<dots> = 2 ^ e / 2 ^ 52"
    by (simp only: powr_realpow [OF zero_less_numeral])
  finally show ?thesis .
qed

lemma b64_range:
  assumes "2 ^ e \<le> \<bar>x\<bar>" and "\<bar>x\<bar> < 2 ^ Suc e"
  shows "b64 x = of_int (round_even (x * 2 ^ 52 / 2 ^ e)) * 2 ^ e / 2 ^ 52"
  by (simp add: b64_def b64_ulp_range [OF assms])

lemmas b64_eval = b64_range [of 0] b64_range [of 1] b64_range [of 2] b64_range [of 50]
  b64_range [of 51] b64_range [of 52] b64_range [of 53]

lemmas b64_defs = times_vec_b64_def transpose_times_b64_def vec_minus_b64_def dot_b64_def
  b64_add_def b64_sub_def b64_mul_def

lemma b64_tiny: "b64 tiny = tiny"
  unfolding tiny_def by (rule b64_inverse_power) simp

lemma b64_tiny_2: "b64 (tiny * 2) = tiny * 2"
proof -
  have "tiny * 2 = 1 / 2 ^ 599"
    unfolding tiny_def by (simp add: field_simps)
  moreover have "b64 (1 / 2 ^ 599) = 1 / 2 ^ 599"
    by (rule b64_inverse_power) simp
  ultimately show ?thesis
    by (simp only:)
qed

lemma b64_tiny_underflow: "b64 (tiny * 2 * tiny) = 0"
proof (rule b64_underflow)
  show "0 \<le> tiny * 2 * tiny"
    by (simp add: tiny_def)
  show "tiny * 2 * tiny < 1 / 2 ^ 1075"
    by (simp add: tiny_def)
qed

lemma vec_minus_b64_self: "vec_minus_b64 a a = replicate (length a) 0"
  by (induction a) (simp_all add: vec_minus_b64_def b64_sub_def b64_zero)

lemma dot_b64_zero_left: "dot_b64 (replicate n 0) w = 0"
proof -
  have "foldl b64_add 0 (map2 b64_mul (replicate n 0) w) = 0"
  proof (induction n arbitrary: w)
    case 0
    show ?case by simp
  next
    case (Suc n)
    then show ?case
      by (cases w) (simp_all add: b64_add_def b64_mul_def b64_zero)
  qed
  then show ?thesis
    by (simp add: dot_b64_def)
qed

lemma dot_b64_zero_right: "dot_b64 r (replicate n 0) = 0"
proof -
  have "foldl b64_add 0 (map2 b64_mul r (replicate n 0)) = 0"
  proof (induction n arbitrary: r)
    case 0
    show ?case by simp
  next
    case (Suc n)
    then show ?case
      by (cases r) (simp_all add: b64_add_def b64_mul_def b64_zero)
  qed
  then show ?thesis
    by (simp add: dot_b64_def)
qed

lemma get_term_cost_b64_equal:
  assumes "fst (get_term_cost env c) = Inr m"
    and "mx_tf (snd (get_term_cost env c)) = mxdes_tf (snd (get_term_cost env c))"
  shows "fst (get_term_cost_b64 env c) = Inr 0"
proof -
  obtain c' where g: "get_term_cost env c = (Inr m, c')"
    using assms(1) by (cases "get_term_cost env c") simp
  with assms(2) have "mx_tf c' = mxdes_tf c'"
    by simp
  with g show ?thesis
    by (simp add: get_term_cost_b64_def vec_minus_b64_self times_vec_b64_def dot_b64_zero_right)
qed

lemma quad_form_env_negative: "quad_form 2 [[9, 3], [3, 1]] [a, b] = (3 * a + b) * (3 * a + b)"
  by (simp add: quad_form_def numeral_2_eq_2 algebra_simps)

lemma pos_semidef_env_negative: "pos_semidef (xlen env_negative) (P env_negative)"
proof -
  have sym: "symmetric_mat 2 [[9, 3], [3, 1 :: real]]"
    by (simp add: symmetric_mat_def less_Suc_eq numeral_2_eq_2)
  have "0 \<le> quad_form 2 [[9, 3], [3, 1]] v" if "length v = 2" for v
  proof -
    from that obtain a b where v: "v = [a, b]"
      using length_2 by blast
    show ?thesis
      unfolding v quad_form_env_negative by (rule zero_le_square)
  qed
  with sym show ?thesis
    by (simp add: pos_semidef_def env_negative_def env0_def)
qed

lemma pos_def_env_underflow: "pos_def (xlen env_underflow) (P env_underflow)"
  using pos_def_env0 by (simp add: env_underflow_def)

text \<open>
  C2, as the code has it. What \<^verbatim>\<open>get_term_cost\<close> returns is the quadratic form
  \<open>(x - x_des)\<^sup>T P (x - x_des)\<close> of the projected state \<open>x\<close> and the desired state
  \<open>x_des\<close> it has just stored, for \<open>P\<close> an \<open>xlen \<times> xlen\<close> matrix and vectors of
  \<open>xlen\<close> entries (what the Eigen types say), evaluated on doubles. Evaluated on doubles
  it is exactly zero when \<open>x = x_des\<close>. Evaluated without rounding it is not negative
  when \<open>P\<close> is symmetric positive semidefinite, and with \<open>P\<close> positive definite it is
  zero exactly when \<open>x = x_des\<close>.
\<close>

theorem get_term_cost_quadratic:
  assumes "fst (get_term_cost env c) = Inr m"
    and "x = mx_tf (snd (get_term_cost env c))"
    and "x_des = mxdes_tf (snd (get_term_cost env c))"
    and "square_mat (xlen env) (P env)"
    and "length x = xlen env" and "length x_des = xlen env"
  shows "x = State2Mat env (x_tf (snd (get_term_cost env c))) \<and>
     x_des = get_DesTraj env (m_lofx_end env) \<and>
     snd (get_term_cost_b64 env c) = snd (get_term_cost env c) \<and>
     fst (get_term_cost_b64 env c) =
       Inr (times_vec_b64 (transpose_times_b64 (vec_minus_b64 x x_des) (P env))
              (vec_minus_b64 x x_des) ! 0) \<and>
     (x = x_des \<longrightarrow> fst (get_term_cost_b64 env c) = Inr 0) \<and>
     m = quad_form (xlen env) (P env) (vec_minus x x_des) \<and>
     m = (\<Sum>i<xlen env. \<Sum>j<xlen env. (x ! i - x_des ! i) * P env ! i ! j * (x ! j - x_des ! j)) \<and>
     (pos_semidef (xlen env) (P env) \<longrightarrow> 0 \<le> m) \<and>
     (pos_def (xlen env) (P env) \<longrightarrow> (m = 0 \<longleftrightarrow> x = x_des))"
proof -
  let ?d = "vec_minus x x_des"
  have len: "length ?d = xlen env"
    using assms(5,6) by (simp add: vec_minus_def)
  have stored: "x = State2Mat env (x_tf (snd (get_term_cost env c)))"
    "x_des = get_DesTraj env (m_lofx_end env)"
    and val: "m = times_vec (transpose_times ?d (P env)) ?d ! 0"
    using assms(1,2,3)
    by (simp_all add: get_term_cost_wrap_list split: prod.splits sum.splits)
  obtain c' where g: "get_term_cost env c = (Inr m, c')"
    using assms(1) by (cases "get_term_cost env c") simp
  have b64_state: "snd (get_term_cost_b64 env c) = snd (get_term_cost env c)"
    and b64_val: "fst (get_term_cost_b64 env c) =
       Inr (times_vec_b64 (transpose_times_b64 (vec_minus_b64 x x_des) (P env))
              (vec_minus_b64 x x_des) ! 0)"
    using assms(2,3) by (simp_all add: get_term_cost_b64_def g)
  have b64_equal: "fst (get_term_cost_b64 env c) = Inr 0" if "x = x_des"
    using assms(1) that unfolding assms(2,3) by (rule get_term_cost_b64_equal)
  from val have m: "m = quad_form (xlen env) (P env) ?d"
    by (simp add: times_vec_quad_form [OF assms(4) len])
  have entries: "m =
     (\<Sum>i<xlen env. \<Sum>j<xlen env. (x ! i - x_des ! i) * P env ! i ! j * (x ! j - x_des ! j))"
    unfolding m quad_form_def using assms(5,6) by (simp add: vec_minus_def)
  have psd: "0 \<le> m" if "pos_semidef (xlen env) (P env)"
    using that len unfolding m by (simp add: pos_semidef_def)
  have pd: "m = 0 \<longleftrightarrow> x = x_des" if "pos_def (xlen env) (P env)"
  proof
    assume "x = x_des"
    with assms(5) have "?d = replicate (xlen env) 0"
      by (simp add: vec_minus_zero_iff)
    then show "m = 0"
      unfolding m by (simp add: quad_form_zero)
  next
    assume "m = 0"
    have "?d = replicate (xlen env) 0"
    proof (rule ccontr)
      assume "?d \<noteq> replicate (xlen env) 0"
      with that len have "0 < quad_form (xlen env) (P env) ?d"
        by (simp add: pos_def_def)
      with \<open>m = 0\<close> m show False
        by simp
    qed
    with assms(5,6) show "x = x_des"
      by (simp add: vec_minus_zero_iff)
  qed
  show ?thesis
    using stored b64_state b64_val b64_equal m entries psd pd by (intro conjI impI) assumption+
qed


theorem get_term_cost_quadratic_witness:
  "fst (get_term_cost env0 c0) = Inr 1 \<and>
   mx_tf (snd (get_term_cost env0 c0)) = [1, - 1] \<and>
   mxdes_tf (snd (get_term_cost env0 c0)) = [1, 0] \<and>
   square_mat (xlen env0) (P env0) \<and> xlen env0 = 2 \<and>
   pos_semidef (xlen env0) (P env0) \<and> pos_def (xlen env0) (P env0) \<and>
   (1 :: real) = quad_form (xlen env0) (P env0) (vec_minus [1, - 1] [1, 0]) \<and>
   (0 :: real) \<le> 1 \<and> ((1 :: real) = 0) = ([1, - 1] = [1, 0 :: real]) \<and>
   fst (get_term_cost env_equal c0) = Inr 0 \<and>
   mx_tf (snd (get_term_cost env_equal c0)) = [1, 3] \<and>
   mxdes_tf (snd (get_term_cost env_equal c0)) = [1, 3] \<and>
   fst (get_term_cost_b64 env_equal c0) = Inr 0"
proof -
  have m: "fst (get_term_cost env0 c0) = Inr 1"
    and x: "[1, - 1] = mx_tf (snd (get_term_cost env0 c0))"
    and d: "[1, 0] = mxdes_tf (snd (get_term_cost env0 c0))"
    by (simp_all add: get_term_cost_env0)
  have sq: "square_mat (xlen env0) (P env0)" and n: "xlen env0 = 2"
    by (simp_all add: square_mat_def env0_def)
  have lx: "length [1, - 1 :: real] = xlen env0" and ld: "length [1, 0 :: real] = xlen env0"
    by (simp_all add: n)
  note t = get_term_cost_quadratic [OF m x d sq lx ld]
  from t have q: "(1 :: real) = quad_form (xlen env0) (P env0) (vec_minus [1, - 1] [1, 0])"
    by (elim conjE)
  from t have "pos_semidef (xlen env0) (P env0) \<longrightarrow> (0 :: real) \<le> 1"
    by (elim conjE)
  then have p: "(0 :: real) \<le> 1"
    using pos_semidef_env0 by (rule mp)
  from t have "pos_def (xlen env0) (P env0) \<longrightarrow> ((1 :: real) = 0) = ([1, - 1] = [1, 0 :: real])"
    by (elim conjE)
  then have e: "((1 :: real) = 0) = ([1, - 1] = [1, 0 :: real])"
    using pos_def_env0 by (rule mp)
  have m': "fst (get_term_cost env_equal c0) = Inr 0"
    and x': "[1, 3] = mx_tf (snd (get_term_cost env_equal c0))"
    and d': "[1, 3] = mxdes_tf (snd (get_term_cost env_equal c0))"
    by (simp_all add: get_term_cost_wrap_list env_equal_def env0_simps)
  have sq': "square_mat (xlen env_equal) (P env_equal)"
    and lx': "length [1, 3 :: real] = xlen env_equal"
    by (simp_all add: square_mat_def env_equal_def env0_def)
  note t' = get_term_cost_quadratic [OF m' x' d' sq' lx' lx']
  from t' have "[1, 3 :: real] = [1, 3] \<longrightarrow> fst (get_term_cost_b64 env_equal c0) = Inr 0"
    by (elim conjE)
  then have z: "fst (get_term_cost_b64 env_equal c0) = Inr 0"
    using refl by (rule mp)
  from m x [symmetric] d [symmetric] sq n pos_semidef_env0 pos_def_env0 q p e
    m' x' [symmetric] d' [symmetric] z
  show ?thesis
    by (intro conjI)
qed

text \<open>
  C2 as the specification states it fails on doubles. With the positive definite
  \<open>P = diag(2, 1)\<close>, \<open>x = (2\<^sup>-\<^sup>6\<^sup>0\<^sup>0, 0)\<close> and \<open>x_des = (0, 0)\<close> the product
  \<open>2\<^sup>-\<^sup>5\<^sup>9\<^sup>9 \<cdot> 2\<^sup>-\<^sup>6\<^sup>0\<^sup>0\<close> is below half the smallest double and rounds to zero: the
  result is exactly \<open>0\<close> and \<open>x \<noteq> x_des\<close>. With the positive semidefinite
  \<open>P = (3, 1)\<^sup>T (3, 1)\<close>, \<open>x = (2\<^sup>5\<^sup>0 + 1, -(3 \<cdot> 2\<^sup>5\<^sup>0 + 1))\<close> and \<open>x_des = (0, 0)\<close>
  the products \<open>9 x\<^sub>0\<close> and \<open>3 x\<^sub>1\<close> are rounded, and the result is negative, where the
  form without rounding is \<open>4\<close>.
\<close>

theorem get_term_cost_b64_counterexample:
  "pos_def (xlen env_underflow) (P env_underflow) \<and>
   mx_tf (snd (get_term_cost_b64 env_underflow c0)) = [tiny, 0] \<and>
   mxdes_tf (snd (get_term_cost_b64 env_underflow c0)) = [0, 0] \<and>
   [tiny, 0] \<noteq> [0, 0] \<and>
   fst (get_term_cost_b64 env_underflow c0) = Inr 0 \<and>
   pos_semidef (xlen env_negative) (P env_negative) \<and>
   mx_tf (snd (get_term_cost_b64 env_negative c0)) = [1125899906842625, - 3377699720527873] \<and>
   mxdes_tf (snd (get_term_cost_b64 env_negative c0)) = [0, 0] \<and>
   fst (get_term_cost env_negative c0) = Inr 4 \<and>
   fst (get_term_cost_b64 env_negative c0) = Inr (- 2251799813685246)"
proof -
  have g: "get_term_cost env_underflow c0 =
      (Inr (2 * tiny * tiny),
       c0\<lparr>x_tf := [tiny, 0], t0 := 0, tf := 1, mx_tf := [tiny, 0], mxdes_tf := [0, 0],
         indx := 0\<rparr>)"
    by (simp add: get_term_cost_wrap_list env_underflow_def env0_simps)
  have u: "fst (get_term_cost_b64 env_underflow c0) = Inr 0"
    "mx_tf (snd (get_term_cost_b64 env_underflow c0)) = [tiny, 0]"
    "mxdes_tf (snd (get_term_cost_b64 env_underflow c0)) = [0, 0]"
    by (simp_all add: get_term_cost_b64_def g)
      (simp add: env_underflow_def env0_def b64_defs b64_zero b64_tiny b64_tiny_2
        b64_tiny_underflow)
  have ne: "[tiny, 0] \<noteq> [0, 0 :: real]"
    by (simp add: tiny_def)
  have h: "get_term_cost env_negative c0 =
      (Inr 4,
       c0\<lparr>x_tf := [1125899906842625, - 3377699720527873], t0 := 0, tf := 1,
         mx_tf := [1125899906842625, - 3377699720527873], mxdes_tf := [0, 0], indx := 0\<rparr>)"
    by (simp add: get_term_cost_wrap_list env_negative_def env0_simps)
  have v: "fst (get_term_cost_b64 env_negative c0) = Inr (- 2251799813685246)"
    "mx_tf (snd (get_term_cost_b64 env_negative c0)) = [1125899906842625, - 3377699720527873]"
    "mxdes_tf (snd (get_term_cost_b64 env_negative c0)) = [0, 0]"
    by (simp_all add: get_term_cost_b64_def h)
      (simp add: env_negative_def env0_def b64_defs b64_zero b64_eval round_even_def)
  from h have r: "fst (get_term_cost env_negative c0) = Inr 4"
    by simp
  from pos_def_env_underflow u ne pos_semidef_env_negative v r show ?thesis
    by (intro conjI)
qed

end
